theory Spec2Isabelle
  imports Main "HOL-Library.Sublist"
begin

section \<open>The executor loader of airflow/executors/executor_loader.py\<close>

text \<open>
  The module resolves an executor name to an executor instance. Everything it does goes
  through four collaborators that live outside the file: \<^verbatim>\<open>import_string\<close>,
  \<^verbatim>\<open>plugins_manager.integrate_executor_plugins\<close>, \<^verbatim>\<open>conf.get\<close> and the call of a
  loaded class. Each of them may return, raise, and change the world outside the module
  (the module table, the heap). They are parameters of the model: functions on an
  external state of any type \<open>'s\<close>, returning an exception or a value together with the
  new external state. The model records every collaborator call and every log call in a
  trace, in the order the code makes them.
\<close>

subsection \<open>Values, exceptions, events\<close>

text \<open>A Python value as the module handles it: \<^verbatim>\<open>None\<close>, or a reference to an object (a
  loaded class, a callable, an executor instance); two references are the identical
  object exactly when they are equal.\<close>

datatype pyobj = PyNone | Obj nat

text \<open>
  The exception classes the code tells apart. \<open>ImportError\<close> stands for the class and its
  subclasses (\<^verbatim>\<open>ModuleNotFoundError\<close>), \<open>OtherException\<close> for every class that is none
  of the four named ones (\<^verbatim>\<open>RuntimeError\<close>, \<^verbatim>\<open>TypeError\<close>, \<^verbatim>\<open>SyntaxError\<close>, ...).
\<close>

datatype exn =
    ImportError string
  | AttributeError string
  | AirflowConfigException string
  | KeyError string
  | OtherException string

datatype ConnectorSource = CORE | PLUGIN | CUSTOM_PATH

fun source_value :: "ConnectorSource \<Rightarrow> string" where
  "source_value CORE = ''core''"
| "source_value PLUGIN = ''plugin''"
| "source_value CUSTOM_PATH = ''custom path''"

datatype event =
    ConfGet string string
  | IntegrateExecutorPlugins
  | ImportString string
  | Call pyobj "pyobj list"
  | LogDebug string "string list"
  | LogError exn
  | LogInfo string "string list"

subsection \<open>What the module imports\<close>

text \<open>
  The seven names of \<^verbatim>\<open>airflow.executors.executor_constants\<close> are imported by the module
  and defined elsewhere; they are taken as parameters.
\<close>

record executor_constants =
  CELERY_EXECUTOR :: string
  CELERY_KUBERNETES_EXECUTOR :: string
  DASK_EXECUTOR :: string
  DEBUG_EXECUTOR :: string
  KUBERNETES_EXECUTOR :: string
  LOCAL_EXECUTOR :: string
  SEQUENTIAL_EXECUTOR :: string

text \<open>
  The collaborators. \<open>integrate_executor_plugins\<close> stands for the two lines
  \<^verbatim>\<open>from airflow import plugins_manager; plugins_manager.integrate_executor_plugins()\<close>
  and \<open>conf_get\<close> for \<^verbatim>\<open>from airflow.configuration import conf; conf.get(section, key)\<close>.
  \<open>py_call c args\<close> is the call \<^verbatim>\<open>c(*args)\<close>. The annotations of the source
  (\<^verbatim>\<open>Type["BaseExecutor"]\<close>, \<^verbatim>\<open>-> "BaseExecutor"\<close>) are not enforced: what a name loads
  may be any callable, and a call may return \<^verbatim>\<open>None\<close>.
\<close>

record 's env =
  constants :: executor_constants
  import_string :: "string \<Rightarrow> 's \<Rightarrow> (exn + pyobj) \<times> 's"
  integrate_executor_plugins :: "'s \<Rightarrow> exn option \<times> 's"
  conf_get :: "string \<Rightarrow> string \<Rightarrow> 's \<Rightarrow> (exn + string) \<times> 's"
  py_call :: "pyobj \<Rightarrow> pyobj list \<Rightarrow> 's \<Rightarrow> (exn + pyobj) \<times> 's"

text \<open>The state: the world outside, the trace, and the class attribute
  \<^verbatim>\<open>ExecutorLoader._default_executor\<close> (initially \<^verbatim>\<open>None\<close>, here \<open>PyNone\<close>). The
  collaborators act on \<open>ext\<close> only: nothing but get_default_executor assigns the class
  attribute.\<close>

record 's loader_state =
  ext :: 's
  trace :: "event list"
  default_executor :: pyobj

definition emit :: "event \<Rightarrow> 's loader_state \<Rightarrow> 's loader_state" where
  "emit ev s = s\<lparr>trace := trace s @ [ev]\<rparr>"

definition do_import_string ::
  "'s env \<Rightarrow> string \<Rightarrow> 's loader_state \<Rightarrow> (exn + pyobj) \<times> 's loader_state" where
  "do_import_string env path s =
     (case import_string env path (ext s) of
        (r, x) \<Rightarrow> (r, emit (ImportString path) (s\<lparr>ext := x\<rparr>)))"

definition do_integrate_executor_plugins ::
  "'s env \<Rightarrow> 's loader_state \<Rightarrow> exn option \<times> 's loader_state" where
  "do_integrate_executor_plugins env s =
     (case integrate_executor_plugins env (ext s) of
        (r, x) \<Rightarrow> (r, emit IntegrateExecutorPlugins (s\<lparr>ext := x\<rparr>)))"

definition do_conf_get ::
  "'s env \<Rightarrow> string \<Rightarrow> string \<Rightarrow> 's loader_state \<Rightarrow> (exn + string) \<times> 's loader_state" where
  "do_conf_get env section key s =
     (case conf_get env section key (ext s) of
        (r, x) \<Rightarrow> (r, emit (ConfGet section key) (s\<lparr>ext := x\<rparr>)))"

definition do_call ::
  "'s env \<Rightarrow> pyobj \<Rightarrow> pyobj list \<Rightarrow> 's loader_state \<Rightarrow> (exn + pyobj) \<times> 's loader_state" where
  "do_call env c args s =
     (case py_call env c args (ext s) of
        (r, x) \<Rightarrow> (r, emit (Call c args) (s\<lparr>ext := x\<rparr>)))"

subsection \<open>The registry\<close>

text \<open>The dict literal \<^verbatim>\<open>ExecutorLoader.executors\<close>, in the order of the source: a key
  written twice keeps the later value, as in Python.\<close>

definition executors :: "executor_constants \<Rightarrow> string \<rightharpoonup> string" where
  "executors k =
     [LOCAL_EXECUTOR k \<mapsto> ''airflow.executors.local_executor.LocalExecutor'',
      SEQUENTIAL_EXECUTOR k \<mapsto> ''airflow.executors.sequential_executor.SequentialExecutor'',
      CELERY_EXECUTOR k \<mapsto> ''airflow.executors.celery_executor.CeleryExecutor'',
      CELERY_KUBERNETES_EXECUTOR k \<mapsto>
        ''airflow.executors.celery_kubernetes_executor.CeleryKubernetesExecutor'',
      DASK_EXECUTOR k \<mapsto> ''airflow.executors.dask_executor.DaskExecutor'',
      KUBERNETES_EXECUTOR k \<mapsto> ''airflow.executors.kubernetes_executor.KubernetesExecutor'',
      DEBUG_EXECUTOR k \<mapsto> ''airflow.executors.debug_executor.DebugExecutor'']"

text \<open>\<^verbatim>\<open>key in d\<close> and \<^verbatim>\<open>d[key]\<close>.\<close>

definition dict_contains :: "(string \<rightharpoonup> string) \<Rightarrow> string \<Rightarrow> bool" where
  "dict_contains d key = (d key \<noteq> None)"

definition dict_getitem :: "(string \<rightharpoonup> string) \<Rightarrow> string \<Rightarrow> exn + string" where
  "dict_getitem d key = (case d key of None \<Rightarrow> Inl (KeyError key) | Some v \<Rightarrow> Inr v)"

subsection \<open>import_executor_cls\<close>

text \<open>\<^verbatim>\<open>with suppress(ImportError, AttributeError)\<close>: the classes the block swallows.\<close>

fun suppressed :: "exn \<Rightarrow> bool" where
  "suppressed (ImportError m) = True"
| "suppressed (AttributeError m) = True"
| "suppressed e = False"

text \<open>The last line of the function:
  \<^verbatim>\<open>return import_string(executor_name), ConnectorSource.CUSTOM_PATH\<close>.\<close>

definition import_custom_path ::
  "'s env \<Rightarrow> string \<Rightarrow> 's loader_state \<Rightarrow> (exn + pyobj \<times> ConnectorSource) \<times> 's loader_state" where
  "import_custom_path env executor_name s =
     (case do_import_string env executor_name s of
        (Inl e, s1) \<Rightarrow> (Inl e, s1)
      | (Inr c, s1) \<Rightarrow> (Inr (c, CUSTOM_PATH), s1))"

definition plugin_debug_message :: string where
  "plugin_debug_message =
     ''The executor name looks like the plugin path (executor_name=%s). Trying to import a ''
     @ ''executor from a plugin''"

text \<open>The body of the \<^verbatim>\<open>with\<close> block: register the plugins, then load the name under
  the namespace of the core executors.\<close>

definition plugin_convention_load ::
  "'s env \<Rightarrow> string \<Rightarrow> 's loader_state \<Rightarrow> (exn + pyobj) \<times> 's loader_state" where
  "plugin_convention_load env executor_name s =
     (case do_integrate_executor_plugins env s of
        (Some e, s1) \<Rightarrow> (Inl e, s1)
      | (None, s1) \<Rightarrow> do_import_string env (''airflow.executors.'' @ executor_name) s1)"

definition import_executor_cls ::
  "'s env \<Rightarrow> string \<Rightarrow> 's loader_state \<Rightarrow> (exn + pyobj \<times> ConnectorSource) \<times> 's loader_state" where
  "import_executor_cls env executor_name s =
     (if dict_contains (executors (constants env)) executor_name then
        (case dict_getitem (executors (constants env)) executor_name of
           Inl e \<Rightarrow> (Inl e, s)
         | Inr location \<Rightarrow>
             (case do_import_string env location s of
                (Inl e, s1) \<Rightarrow> (Inl e, s1)
              | (Inr c, s1) \<Rightarrow> (Inr (c, CORE), s1)))
      else if count_list executor_name (CHR ''.'') = 1 then
        (case plugin_convention_load env executor_name
                (emit (LogDebug plugin_debug_message [executor_name]) s) of
           (Inr c, s1) \<Rightarrow> (Inr (c, PLUGIN), s1)
         | (Inl e, s1) \<Rightarrow>
             (if suppressed e then import_custom_path env executor_name s1 else (Inl e, s1)))
      else import_custom_path env executor_name s)"

subsection \<open>The composite executor\<close>

text \<open>\<^verbatim>\<open>import_string(cls.executors[key])\<close>.\<close>

definition import_registry_entry ::
  "'s env \<Rightarrow> string \<Rightarrow> 's loader_state \<Rightarrow> (exn + pyobj) \<times> 's loader_state" where
  "import_registry_entry env key s =
     (case dict_getitem (executors (constants env)) key of
        Inl e \<Rightarrow> (Inl e, s)
      | Inr location \<Rightarrow> do_import_string env location s)"

definition load_celery_kubernetes_executor ::
  "'s env \<Rightarrow> 's loader_state \<Rightarrow> (exn + pyobj) \<times> 's loader_state" where
  "load_celery_kubernetes_executor env s =
     (case import_registry_entry env (CELERY_EXECUTOR (constants env)) s of
        (Inl e, s1) \<Rightarrow> (Inl e, s1)
      | (Inr celery_cls, s1) \<Rightarrow>
     (case do_call env celery_cls [] s1 of
        (Inl e, s2) \<Rightarrow> (Inl e, s2)
      | (Inr celery_executor, s2) \<Rightarrow>
     (case import_registry_entry env (KUBERNETES_EXECUTOR (constants env)) s2 of
        (Inl e, s3) \<Rightarrow> (Inl e, s3)
      | (Inr kubernetes_cls, s3) \<Rightarrow>
     (case do_call env kubernetes_cls [] s3 of
        (Inl e, s4) \<Rightarrow> (Inl e, s4)
      | (Inr kubernetes_executor, s4) \<Rightarrow>
     (case import_registry_entry env (CELERY_KUBERNETES_EXECUTOR (constants env)) s4 of
        (Inl e, s5) \<Rightarrow> (Inl e, s5)
      | (Inr celery_kubernetes_executor_cls, s5) \<Rightarrow>
          do_call env celery_kubernetes_executor_cls
            [celery_executor, kubernetes_executor] s5)))))"

subsection \<open>load_executor\<close>

text \<open>The message of the \<^verbatim>\<open>AirflowConfigException\<close>, an f-string over the name.\<close>

definition config_error_message :: "string \<Rightarrow> string" where
  "config_error_message executor_name =
     ''The module/attribute could not be loaded. Please check '' @ [CHR 0x22] @ ''executor''
     @ [CHR 0x22] @ '' key in '' @ [CHR 0x22] @ ''core'' @ [CHR 0x22] @ '' section. ''
     @ ''Current value: '' @ [CHR 0x22] @ executor_name @ [CHR 0x22] @ ''.''"

definition load_executor ::
  "'s env \<Rightarrow> string \<Rightarrow> 's loader_state \<Rightarrow> (exn + pyobj) \<times> 's loader_state" where
  "load_executor env executor_name s =
     (if executor_name = CELERY_KUBERNETES_EXECUTOR (constants env) then
        load_celery_kubernetes_executor env s
      else
        (case import_executor_cls env executor_name s of
           (Inl (ImportError m), s1) \<Rightarrow>
             (Inl (AirflowConfigException (config_error_message executor_name)),
              emit (LogError (ImportError m)) s1)
         | (Inl e, s1) \<Rightarrow> (Inl e, s1)
         | (Inr (executor_cls, import_source), s1) \<Rightarrow>
             do_call env executor_cls []
               (emit (LogInfo ''Loaded executor: %s'' [executor_name])
                 (emit (LogDebug ''Loading executor %s from %s''
                          [executor_name, source_value import_source]) s1))))"

subsection \<open>get_default_executor\<close>

definition get_default_executor ::
  "'s env \<Rightarrow> 's loader_state \<Rightarrow> (exn + pyobj) \<times> 's loader_state" where
  "get_default_executor env s =
     (if default_executor s \<noteq> PyNone then (Inr (default_executor s), s)
      else
        (case do_conf_get env ''core'' ''EXECUTOR'' s of
           (Inl e, s1) \<Rightarrow> (Inl e, s1)
         | (Inr executor_name, s1) \<Rightarrow>
             (case load_executor env executor_name s1 of
                (Inl e, s2) \<Rightarrow> (Inl e, s2)
              | (Inr executor, s2) \<Rightarrow>
                  (Inr executor, s2\<lparr>default_executor := executor\<rparr>))))"

subsection \<open>A sample installation\<close>

text \<open>
  A concrete world to run the functions in. The external state is the next free object
  address; a call allocates a fresh object. \<open>table_import\<close> answers from a table of dotted
  locations and raises \<open>ImportError\<close> for a location that is not in it. The constants have
  the values used by Airflow.
\<close>

definition airflow_constants :: executor_constants where
  "airflow_constants =
     \<lparr>CELERY_EXECUTOR = ''CeleryExecutor'',
      CELERY_KUBERNETES_EXECUTOR = ''CeleryKubernetesExecutor'',
      DASK_EXECUTOR = ''DaskExecutor'',
      DEBUG_EXECUTOR = ''DebugExecutor'',
      KUBERNETES_EXECUTOR = ''KubernetesExecutor'',
      LOCAL_EXECUTOR = ''LocalExecutor'',
      SEQUENTIAL_EXECUTOR = ''SequentialExecutor''\<rparr>"

definition table_import :: "(string \<times> (exn + pyobj)) list \<Rightarrow> string \<Rightarrow> nat \<Rightarrow> (exn + pyobj) \<times> nat" where
  "table_import tab path n =
     (case map_of tab path of
        Some r \<Rightarrow> (r, n)
      | None \<Rightarrow> (Inl (ImportError (''No module named '' @ path)), n))"

definition sample_env :: "(string \<times> (exn + pyobj)) list \<Rightarrow> string \<Rightarrow> nat env" where
  "sample_env tab configured =
     \<lparr>constants = airflow_constants,
      import_string = table_import tab,
      integrate_executor_plugins = (\<lambda>n. (None, n)),
      conf_get = (\<lambda>section key n.
         if section = ''core'' \<and> key = ''EXECUTOR'' then (Inr configured, n)
         else (Inl (AirflowConfigException (section @ ''/'' @ key)), n)),
      py_call = (\<lambda>c args n. (Inr (Obj n), Suc n))\<rparr>"

definition core_modules :: "(string \<times> (exn + pyobj)) list" where
  "core_modules =
     [(''airflow.executors.local_executor.LocalExecutor'', Inr (Obj 1)),
      (''airflow.executors.sequential_executor.SequentialExecutor'', Inr (Obj 2)),
      (''airflow.executors.celery_executor.CeleryExecutor'', Inr (Obj 3)),
      (''airflow.executors.celery_kubernetes_executor.CeleryKubernetesExecutor'', Inr (Obj 4)),
      (''airflow.executors.dask_executor.DaskExecutor'', Inr (Obj 5)),
      (''airflow.executors.kubernetes_executor.KubernetesExecutor'', Inr (Obj 6)),
      (''airflow.executors.debug_executor.DebugExecutor'', Inr (Obj 7))]"

definition fresh_process :: "nat loader_state" where
  "fresh_process = \<lparr>ext = 100, trace = [], default_executor = PyNone\<rparr>"

text \<open>A custom executor installed beside the core ones, importable at two locations.\<close>

definition custom_modules :: "(string \<times> (exn + pyobj)) list" where
  "custom_modules =
     (''mymodule.MyBackend'', Inr (Obj 50))
     # (''my_company.executors.fast.FastExecutor'', Inr (Obj 51))
     # core_modules"

text \<open>The same, with a module \<^verbatim>\<open>airflow.executors.mymodule\<close> whose own code raises a
  \<^verbatim>\<open>RuntimeError\<close> when it is imported.\<close>

definition broken_plugin_modules :: "(string \<times> (exn + pyobj)) list" where
  "broken_plugin_modules =
     (''airflow.executors.mymodule.MyBackend'',
        Inl (OtherException ''RuntimeError: plugin module failed to initialise''))
     # custom_modules"

text \<open>An installation without the celery package.\<close>

definition no_celery_modules :: "(string \<times> (exn + pyobj)) list" where
  "no_celery_modules =
     (''airflow.executors.celery_executor.CeleryExecutor'',
        Inl (ImportError ''No module named celery''))
     # core_modules"

text \<open>An installation in which the configured name \<^verbatim>\<open>builtins.print\<close> loads a
  callable (\<open>Obj 60\<close>) whose call returns \<^verbatim>\<open>None\<close>; every other call allocates an
  object as before.\<close>

definition print_modules :: "(string \<times> (exn + pyobj)) list" where
  "print_modules = (''builtins.print'', Inr (Obj 60)) # core_modules"

definition print_env :: "nat env" where
  "print_env =
     (sample_env print_modules ''builtins.print'')
       \<lparr>py_call := (\<lambda>c args n. if c = Obj 60 then (Inr PyNone, n) else (Inr (Obj n), Suc n))\<rparr>"

text \<open>The events that are configuration queries.\<close>

fun is_conf_get :: "event \<Rightarrow> bool" where
  "is_conf_get (ConfGet section key) = True"
| "is_conf_get ev = False"

section \<open>Properties\<close>

subsection \<open>What one collaborator call does to the state\<close>

lemma do_import_string_state:
  "do_import_string env path s = (r, s') \<Longrightarrow>
     trace s' = trace s @ [ImportString path] \<and> default_executor s' = default_executor s"
  by (auto simp: do_import_string_def emit_def split: prod.splits)

lemma do_integrate_executor_plugins_state:
  "do_integrate_executor_plugins env s = (r, s') \<Longrightarrow>
     trace s' = trace s @ [IntegrateExecutorPlugins] \<and> default_executor s' = default_executor s"
  by (auto simp: do_integrate_executor_plugins_def emit_def split: prod.splits)

lemma do_conf_get_state:
  "do_conf_get env section key s = (r, s') \<Longrightarrow>
     trace s' = trace s @ [ConfGet section key] \<and> default_executor s' = default_executor s"
  by (auto simp: do_conf_get_def emit_def split: prod.splits)

lemma do_call_state:
  "do_call env c args s = (r, s') \<Longrightarrow>
     trace s' = trace s @ [Call c args] \<and> default_executor s' = default_executor s"
  by (auto simp: do_call_def emit_def split: prod.splits)

lemma emit_state [simp]:
  "trace (emit ev s) = trace s @ [ev]" "default_executor (emit ev s) = default_executor s"
  "ext (emit ev s) = ext s"
  by (simp_all add: emit_def)

text \<open>Every name of the dict literal is a key of the registry.\<close>

lemma executors_keys:
  "executors k (LOCAL_EXECUTOR k) \<noteq> None"
  "executors k (SEQUENTIAL_EXECUTOR k) \<noteq> None"
  "executors k (CELERY_EXECUTOR k) \<noteq> None"
  "executors k (CELERY_KUBERNETES_EXECUTOR k) \<noteq> None"
  "executors k (DASK_EXECUTOR k) \<noteq> None"
  "executors k (KUBERNETES_EXECUTOR k) \<noteq> None"
  "executors k (DEBUG_EXECUTOR k) \<noteq> None"
  by (simp_all add: executors_def)

subsection \<open>What each function does to the trace and to the cache\<close>

lemma import_custom_path_state:
  "import_custom_path env name s = (r, s') \<Longrightarrow>
     trace s' = trace s @ [ImportString name] \<and> default_executor s' = default_executor s"
  by (auto simp: import_custom_path_def split: prod.splits sum.splits
      dest: do_import_string_state)

lemma plugin_convention_load_state:
  "plugin_convention_load env name s = (r, s') \<Longrightarrow>
     (trace s' = trace s @ [IntegrateExecutorPlugins] \<or>
      trace s' = trace s @ [IntegrateExecutorPlugins, ImportString (''airflow.executors.'' @ name)])
     \<and> default_executor s' = default_executor s"
  by (auto simp: plugin_convention_load_def split: prod.splits option.splits
      dest!: do_import_string_state do_integrate_executor_plugins_state)

lemma import_registry_entry_key:
  "executors (constants env) key = Some location \<Longrightarrow>
     import_registry_entry env key s = do_import_string env location s"
  by (simp add: import_registry_entry_def dict_getitem_def)

lemma import_executor_cls_state:
  "import_executor_cls env name s = (r, s') \<Longrightarrow>
     (\<exists>evs. trace s' = trace s @ evs \<and> (\<forall>ev\<in>set evs. \<not> is_conf_get ev))
     \<and> default_executor s' = default_executor s"
  by (auto simp: import_executor_cls_def dict_getitem_def
      split: if_splits prod.splits sum.splits option.splits
      dest!: do_import_string_state import_custom_path_state plugin_convention_load_state)

lemma load_celery_kubernetes_executor_state:
  "load_celery_kubernetes_executor env s = (r, s') \<Longrightarrow>
     (\<exists>evs. trace s' = trace s @ evs \<and>
        (\<forall>ev\<in>set evs. \<not> is_conf_get ev \<and> ev \<noteq> IntegrateExecutorPlugins))
     \<and> default_executor s' = default_executor s"
  by (auto simp: load_celery_kubernetes_executor_def import_registry_entry_def dict_getitem_def
      split: if_splits prod.splits sum.splits option.splits
      dest!: do_import_string_state do_call_state)

lemma load_executor_state:
  "load_executor env name s = (r, s') \<Longrightarrow>
     (\<exists>evs. trace s' = trace s @ evs \<and> (\<forall>ev\<in>set evs. \<not> is_conf_get ev))
     \<and> default_executor s' = default_executor s"
  by (auto simp: load_executor_def
      split: if_splits prod.splits sum.splits option.splits exn.splits
      dest!: load_celery_kubernetes_executor_state import_executor_cls_state do_call_state)

subsection \<open>Running the sample installation\<close>

lemmas sample_defs = sample_env_def table_import_def core_modules_def
  airflow_constants_def fresh_process_def executors_def dict_contains_def dict_getitem_def

lemmas run_defs = import_executor_cls_def load_executor_def get_default_executor_def
  load_celery_kubernetes_executor_def import_registry_entry_def import_custom_path_def
  plugin_convention_load_def do_import_string_def do_call_def do_conf_get_def
  do_integrate_executor_plugins_def emit_def

subsection \<open>The plugin convention and its fall-through\<close>

text \<open>
  C1, as stated, fails. The \<^verbatim>\<open>with suppress(ImportError, AttributeError)\<close> block swallows
  two exception classes, not every failure. In the installation below the name
  \<^verbatim>\<open>mymodule.MyBackend\<close> is no registry key and has one dot, its load under the plugin
  convention fails with a \<^verbatim>\<open>RuntimeError\<close>, and the literal location is importable; yet
  import_executor_cls raises the \<^verbatim>\<open>RuntimeError\<close> and never tries the literal location.
\<close>

theorem import_executor_cls_plugin_failure_not_always_swallowed:
  "\<not> dict_contains (executors (constants (sample_env broken_plugin_modules ''mymodule.MyBackend'')))
        ''mymodule.MyBackend''
   \<and> count_list ''mymodule.MyBackend'' (CHR ''.'') = 1
   \<and> fst (plugin_convention_load (sample_env broken_plugin_modules ''mymodule.MyBackend'')
          ''mymodule.MyBackend''
          (emit (LogDebug plugin_debug_message [''mymodule.MyBackend'']) fresh_process))
       = Inl (OtherException ''RuntimeError: plugin module failed to initialise'')
   \<and> fst (do_import_string (sample_env broken_plugin_modules ''mymodule.MyBackend'')
          ''mymodule.MyBackend'' fresh_process) = Inr (Obj 50)
   \<and> fst (import_executor_cls (sample_env broken_plugin_modules ''mymodule.MyBackend'')
          ''mymodule.MyBackend'' fresh_process)
       = Inl (OtherException ''RuntimeError: plugin module failed to initialise'')
   \<and> ImportString ''mymodule.MyBackend''
       \<notin> set (trace (snd (import_executor_cls
            (sample_env broken_plugin_modules ''mymodule.MyBackend'')
            ''mymodule.MyBackend'' fresh_process)))"
  by (simp add: sample_defs run_defs broken_plugin_modules_def custom_modules_def)

text \<open>
  C1, amended: for every name that is not a registry key and contains exactly one dot, if
  the load under the plugin convention (registering the plugins, then importing the name
  under the namespace of the core executors) raises an \<^verbatim>\<open>ImportError\<close> or an
  \<^verbatim>\<open>AttributeError\<close>, import_executor_cls goes on from the state that attempt left and
  loads the name as a literal dotted location: it returns the loaded type tagged
  \<open>CUSTOM_PATH\<close> when that load succeeds, and an exception reaches the caller only when
  that load raises one.
\<close>

theorem import_executor_cls_plugin_fallthrough:
  assumes "\<not> dict_contains (executors (constants env)) executor_name"
    and "count_list executor_name (CHR ''.'') = 1"
    and "plugin_convention_load env executor_name
           (emit (LogDebug plugin_debug_message [executor_name]) s) = (Inl e, s1)"
    and "suppressed e"
  shows "import_executor_cls env executor_name s =
           (case do_import_string env executor_name s1 of
              (Inl e', s2) \<Rightarrow> (Inl e', s2)
            | (Inr c, s2) \<Rightarrow> (Inr (c, CUSTOM_PATH), s2))"
  using assms by (simp add: import_executor_cls_def import_custom_path_def)

theorem import_executor_cls_plugin_fallthrough_witness:
  "import_executor_cls (sample_env custom_modules ''mymodule.MyBackend'')
     ''mymodule.MyBackend'' fresh_process =
   (Inr (Obj 50, CUSTOM_PATH),
    \<lparr>ext = 100,
     trace = [LogDebug plugin_debug_message [''mymodule.MyBackend''],
              IntegrateExecutorPlugins,
              ImportString ''airflow.executors.mymodule.MyBackend'',
              ImportString ''mymodule.MyBackend''],
     default_executor = PyNone\<rparr>)"
proof -
  let ?env = "sample_env custom_modules ''mymodule.MyBackend''"
  let ?s1 = "\<lparr>ext = 100,
     trace = [LogDebug plugin_debug_message [''mymodule.MyBackend''],
              IntegrateExecutorPlugins,
              ImportString ''airflow.executors.mymodule.MyBackend''],
     default_executor = PyNone\<rparr> :: nat loader_state"
  have a: "\<not> dict_contains (executors (constants ?env)) ''mymodule.MyBackend''"
    by (simp add: sample_defs custom_modules_def)
  have b: "count_list ''mymodule.MyBackend'' (CHR ''.'') = 1"
    by simp
  have c: "plugin_convention_load ?env ''mymodule.MyBackend''
             (emit (LogDebug plugin_debug_message [''mymodule.MyBackend'']) fresh_process)
           = (Inl (ImportError (''No module named '' @ ''airflow.executors.mymodule.MyBackend'')),
              ?s1)"
    by (simp add: sample_defs run_defs custom_modules_def)
  have d: "suppressed
             (ImportError (''No module named '' @ ''airflow.executors.mymodule.MyBackend''))"
    by simp
  show ?thesis
    using import_executor_cls_plugin_fallthrough [OF a b c d]
    by (simp add: sample_defs run_defs custom_modules_def)
qed

subsection \<open>Translation of the import failure\<close>

text \<open>
  An \<^verbatim>\<open>ImportError\<close> leaves import_executor_cls exactly when the load of the last
  strategy that applies to the name raises it: the load of the registry entry for a key,
  the load of the literal location otherwise, reached directly or after the plugin
  attempt was swallowed.
\<close>

lemma import_executor_cls_ImportError_iff:
  "import_executor_cls env executor_name s = (Inl (ImportError m), s1) \<longleftrightarrow>
     (\<exists>location. executors (constants env) executor_name = Some location
        \<and> do_import_string env location s = (Inl (ImportError m), s1))
   \<or> (executors (constants env) executor_name = None
        \<and> count_list executor_name (CHR ''.'') \<noteq> 1
        \<and> do_import_string env executor_name s = (Inl (ImportError m), s1))
   \<or> (executors (constants env) executor_name = None
        \<and> count_list executor_name (CHR ''.'') = 1
        \<and> (\<exists>e s0. plugin_convention_load env executor_name
                      (emit (LogDebug plugin_debug_message [executor_name]) s) = (Inl e, s0)
               \<and> suppressed e
               \<and> do_import_string env executor_name s0 = (Inl (ImportError m), s1)))"
  by (auto simp: import_executor_cls_def import_custom_path_def dict_contains_def
      dict_getitem_def split: prod.splits sum.splits option.splits if_splits)

text \<open>
  C2: for every name other than the composite identifier, when import_executor_cls raises
  an \<^verbatim>\<open>ImportError\<close> (the plugin attempt swallows its own, so this is the load of the last
  strategy that applies), load_executor raises an \<^verbatim>\<open>AirflowConfigException\<close> in its
  place, and the message of that exception contains the name as the caller passed it.
\<close>

theorem load_executor_import_error_translated:
  assumes "executor_name \<noteq> CELERY_KUBERNETES_EXECUTOR (constants env)"
    and "import_executor_cls env executor_name s = (Inl (ImportError m), s1)"
  shows "load_executor env executor_name s =
           (Inl (AirflowConfigException (config_error_message executor_name)),
            emit (LogError (ImportError m)) s1)
         \<and> sublist executor_name (config_error_message executor_name)"
proof -
  have "sublist executor_name (config_error_message executor_name)"
    unfolding config_error_message_def sublist_def by (metis append.assoc)
  with assms show ?thesis by (simp add: load_executor_def)
qed

theorem load_executor_import_error_translated_witness:
  "load_executor (sample_env core_modules ''LocalExecutor'') ''totally.bogus.path.NoSuchType''
     fresh_process =
   (Inl (AirflowConfigException (config_error_message ''totally.bogus.path.NoSuchType'')),
    \<lparr>ext = 100,
     trace = [ImportString ''totally.bogus.path.NoSuchType'',
              LogError (ImportError ''No module named totally.bogus.path.NoSuchType'')],
     default_executor = PyNone\<rparr>)
   \<and> sublist ''totally.bogus.path.NoSuchType''
       (config_error_message ''totally.bogus.path.NoSuchType'')"
proof -
  let ?env = "sample_env core_modules ''LocalExecutor''"
  have a: "''totally.bogus.path.NoSuchType'' \<noteq> CELERY_KUBERNETES_EXECUTOR (constants ?env)"
    by (simp add: sample_defs)
  have b: "import_executor_cls ?env ''totally.bogus.path.NoSuchType'' fresh_process =
      (Inl (ImportError ''No module named totally.bogus.path.NoSuchType''),
       \<lparr>ext = 100, trace = [ImportString ''totally.bogus.path.NoSuchType''],
        default_executor = PyNone\<rparr>)"
    by (simp add: sample_defs run_defs)
  show ?thesis
    using load_executor_import_error_translated [OF a b] by (simp add: emit_def)
qed

subsection \<open>The cached default executor\<close>

text \<open>
  C3, as stated, fails. The cache is tested with \<^verbatim>\<open>is not None\<close> and is assigned whatever
  load_executor returns. With the configured name \<^verbatim>\<open>builtins.print\<close> the name loads as a
  literal location, the call returns \<^verbatim>\<open>None\<close>, and the first call of
  get_default_executor returns normally with the cache still unset; the second call
  queries \<^verbatim>\<open>conf.get('core', 'EXECUTOR')\<close> again and resolves and calls again, so the
  configuration is queried twice across the two calls.
\<close>

theorem get_default_executor_none_not_cached:
  "get_default_executor print_env fresh_process =
     (Inr PyNone,
      \<lparr>ext = 100,
       trace = [ConfGet ''core'' ''EXECUTOR'',
                LogDebug plugin_debug_message [''builtins.print''],
                IntegrateExecutorPlugins,
                ImportString ''airflow.executors.builtins.print'',
                ImportString ''builtins.print'',
                LogDebug ''Loading executor %s from %s'' [''builtins.print'', ''custom path''],
                LogInfo ''Loaded executor: %s'' [''builtins.print''],
                Call (Obj 60) []],
       default_executor = PyNone\<rparr>)
   \<and> count_list
        (trace (snd (get_default_executor print_env
                       (snd (get_default_executor print_env fresh_process)))))
        (ConfGet ''core'' ''EXECUTOR'') = 2"
  by (simp add: sample_defs run_defs print_env_def print_modules_def plugin_debug_message_def)

text \<open>
  C3, amended: when a call of get_default_executor returns an executor instance (a value
  other than \<^verbatim>\<open>None\<close>), the next call (nothing having reset the cache in between) returns
  the identical instance and leaves the state as it is: it makes no collaborator call at
  all. When the first call started from an empty cache, the first event it adds to the
  trace is the query \<^verbatim>\<open>conf.get('core', 'EXECUTOR')\<close> and no other event of the two calls
  is a configuration query, so the configuration is queried exactly once across both
  calls.
\<close>

theorem get_default_executor_cached:
  assumes "get_default_executor env s = (Inr executor, s1)"
    and "executor \<noteq> PyNone"
  shows "get_default_executor env s1 = (Inr executor, s1)
         \<and> default_executor s1 = executor
         \<and> (default_executor s = PyNone \<longrightarrow>
              (\<exists>evs. trace s1 = trace s @ ConfGet ''core'' ''EXECUTOR'' # evs
                \<and> (\<forall>ev\<in>set evs. \<not> is_conf_get ev)))"
  using assms
  by (auto simp: get_default_executor_def split: prod.splits sum.splits if_splits
      dest!: do_conf_get_state load_executor_state)

theorem get_default_executor_cached_witness:
  "get_default_executor (sample_env core_modules ''LocalExecutor'') fresh_process =
     (Inr (Obj 100),
      \<lparr>ext = 101,
       trace = [ConfGet ''core'' ''EXECUTOR'',
                ImportString ''airflow.executors.local_executor.LocalExecutor'',
                LogDebug ''Loading executor %s from %s'' [''LocalExecutor'', ''core''],
                LogInfo ''Loaded executor: %s'' [''LocalExecutor''],
                Call (Obj 1) []],
       default_executor = Obj 100\<rparr>)
   \<and> get_default_executor (sample_env core_modules ''LocalExecutor'')
       \<lparr>ext = 101,
        trace = [ConfGet ''core'' ''EXECUTOR'',
                ImportString ''airflow.executors.local_executor.LocalExecutor'',
                LogDebug ''Loading executor %s from %s'' [''LocalExecutor'', ''core''],
                LogInfo ''Loaded executor: %s'' [''LocalExecutor''],
                Call (Obj 1) []],
        default_executor = Obj 100\<rparr> =
     (Inr (Obj 100),
      \<lparr>ext = 101,
       trace = [ConfGet ''core'' ''EXECUTOR'',
                ImportString ''airflow.executors.local_executor.LocalExecutor'',
                LogDebug ''Loading executor %s from %s'' [''LocalExecutor'', ''core''],
                LogInfo ''Loaded executor: %s'' [''LocalExecutor''],
                Call (Obj 1) []],
       default_executor = Obj 100\<rparr>)
   \<and> default_executor fresh_process = PyNone"
proof -
  let ?env = "sample_env core_modules ''LocalExecutor''"
  have a: "default_executor fresh_process = PyNone"
    by (simp add: fresh_process_def)
  have b: "get_default_executor ?env fresh_process =
     (Inr (Obj 100),
      \<lparr>ext = 101,
       trace = [ConfGet ''core'' ''EXECUTOR'',
                ImportString ''airflow.executors.local_executor.LocalExecutor'',
                LogDebug ''Loading executor %s from %s'' [''LocalExecutor'', ''core''],
                LogInfo ''Loaded executor: %s'' [''LocalExecutor''],
                Call (Obj 1) []],
       default_executor = Obj 100\<rparr>)"
    by (simp add: sample_defs run_defs)
  have c: "Obj 100 \<noteq> PyNone"
    by simp
  show ?thesis
    using get_default_executor_cached [OF b c] a b by simp
qed

subsection \<open>The composite executor\<close>

text \<open>
  C4: for the composite identifier, load_executor is the composite builder and nothing
  else. When it returns an executor, it has made exactly six collaborator calls, in this
  order: the load of the registry entry of the celery executor and the call of that class
  with no argument, the same for the kubernetes executor, the load of the registry entry
  of the composite type, and the call of the composite type with the celery instance
  first and the kubernetes instance second. The plugin collaborator is not called and
  the name is not resolved by any of the three generic strategies.
\<close>

theorem load_executor_composite:
  assumes "load_executor env (CELERY_KUBERNETES_EXECUTOR (constants env)) s = (Inr executor, s')"
  shows "load_executor env (CELERY_KUBERNETES_EXECUTOR (constants env)) s =
           load_celery_kubernetes_executor env s
         \<and> (\<exists>l1 l2 l3 c1 c2 c3 i1 i2 s1 s2 s3 s4 s5.
              executors (constants env) (CELERY_EXECUTOR (constants env)) = Some l1
            \<and> executors (constants env) (KUBERNETES_EXECUTOR (constants env)) = Some l2
            \<and> executors (constants env) (CELERY_KUBERNETES_EXECUTOR (constants env)) = Some l3
            \<and> do_import_string env l1 s = (Inr c1, s1)
            \<and> do_call env c1 [] s1 = (Inr i1, s2)
            \<and> do_import_string env l2 s2 = (Inr c2, s3)
            \<and> do_call env c2 [] s3 = (Inr i2, s4)
            \<and> do_import_string env l3 s4 = (Inr c3, s5)
            \<and> do_call env c3 [i1, i2] s5 = (Inr executor, s')
            \<and> trace s' = trace s @ [ImportString l1, Call c1 [], ImportString l2, Call c2 [],
                                      ImportString l3, Call c3 [i1, i2]])"
proof -
  let ?k = "constants env"
  obtain l1 l2 l3 where l:
    "executors ?k (CELERY_EXECUTOR ?k) = Some l1"
    "executors ?k (KUBERNETES_EXECUTOR ?k) = Some l2"
    "executors ?k (CELERY_KUBERNETES_EXECUTOR ?k) = Some l3"
    using executors_keys(3,4,6) [of ?k] by auto
  have eq: "load_executor env (CELERY_KUBERNETES_EXECUTOR ?k) s =
           load_celery_kubernetes_executor env s"
    by (simp add: load_executor_def)
  from assms eq have run: "load_celery_kubernetes_executor env s = (Inr executor, s')"
    by simp
  then obtain c1 s1 i1 s2 c2 s3 i2 s4 c3 s5 where steps:
    "do_import_string env l1 s = (Inr c1, s1)"
    "do_call env c1 [] s1 = (Inr i1, s2)"
    "do_import_string env l2 s2 = (Inr c2, s3)"
    "do_call env c2 [] s3 = (Inr i2, s4)"
    "do_import_string env l3 s4 = (Inr c3, s5)"
    "do_call env c3 [i1, i2] s5 = (Inr executor, s')"
    by (auto simp: load_celery_kubernetes_executor_def import_registry_entry_key [OF l(1)]
        import_registry_entry_key [OF l(2)] import_registry_entry_key [OF l(3)]
        split: prod.splits sum.splits)
  have "trace s' = trace s @ [ImportString l1, Call c1 [], ImportString l2, Call c2 [],
                                      ImportString l3, Call c3 [i1, i2]]"
    using steps by (auto dest!: do_import_string_state do_call_state)
  with l eq steps show ?thesis by blast
qed

theorem load_executor_composite_witness:
  "load_executor (sample_env core_modules ''CeleryKubernetesExecutor'')
     (CELERY_KUBERNETES_EXECUTOR (constants (sample_env core_modules ''CeleryKubernetesExecutor'')))
     fresh_process =
   (Inr (Obj 102),
    \<lparr>ext = 103,
     trace = [ImportString ''airflow.executors.celery_executor.CeleryExecutor'',
              Call (Obj 3) [],
              ImportString ''airflow.executors.kubernetes_executor.KubernetesExecutor'',
              Call (Obj 6) [],
              ImportString
                ''airflow.executors.celery_kubernetes_executor.CeleryKubernetesExecutor'',
              Call (Obj 4) [Obj 100, Obj 101]],
     default_executor = PyNone\<rparr>)
   \<and> load_celery_kubernetes_executor (sample_env core_modules ''CeleryKubernetesExecutor'')
       fresh_process =
   (Inr (Obj 102),
    \<lparr>ext = 103,
     trace = [ImportString ''airflow.executors.celery_executor.CeleryExecutor'',
              Call (Obj 3) [],
              ImportString ''airflow.executors.kubernetes_executor.KubernetesExecutor'',
              Call (Obj 6) [],
              ImportString
                ''airflow.executors.celery_kubernetes_executor.CeleryKubernetesExecutor'',
              Call (Obj 4) [Obj 100, Obj 101]],
     default_executor = PyNone\<rparr>)"
proof -
  let ?env = "sample_env core_modules ''CeleryKubernetesExecutor''"
  have a: "load_executor ?env (CELERY_KUBERNETES_EXECUTOR (constants ?env)) fresh_process =
   (Inr (Obj 102),
    \<lparr>ext = 103,
     trace = [ImportString ''airflow.executors.celery_executor.CeleryExecutor'',
              Call (Obj 3) [],
              ImportString ''airflow.executors.kubernetes_executor.KubernetesExecutor'',
              Call (Obj 6) [],
              ImportString
                ''airflow.executors.celery_kubernetes_executor.CeleryKubernetesExecutor'',
              Call (Obj 4) [Obj 100, Obj 101]],
     default_executor = PyNone\<rparr>)"
    by (simp add: sample_defs run_defs)
  show ?thesis
    using load_executor_composite [OF a] a by simp
qed

text \<open>
  C5 does not hold of the code: a failing load on the composite path is not translated.
  In an installation without the celery package the load of the celery executor raises
  an \<^verbatim>\<open>ImportError\<close>. On the composite identifier load_executor raises that
  \<^verbatim>\<open>ImportError\<close> itself, because the composite branch returns before the \<^verbatim>\<open>try\<close> block.
  On the name of the celery executor, the same failing load in the same installation
  goes through the \<^verbatim>\<open>try\<close> block of the same function and reaches the caller as an
  \<^verbatim>\<open>AirflowConfigException\<close>.
\<close>

theorem load_executor_composite_import_error_not_translated:
  "fst (do_import_string (sample_env no_celery_modules ''CeleryKubernetesExecutor'')
          ''airflow.executors.celery_executor.CeleryExecutor'' fresh_process)
     = Inl (ImportError ''No module named celery'')
   \<and> load_executor (sample_env no_celery_modules ''CeleryKubernetesExecutor'')
       ''CeleryKubernetesExecutor'' fresh_process
     = (Inl (ImportError ''No module named celery''),
        \<lparr>ext = 100,
         trace = [ImportString ''airflow.executors.celery_executor.CeleryExecutor''],
         default_executor = PyNone\<rparr>)
   \<and> load_executor (sample_env no_celery_modules ''CeleryKubernetesExecutor'')
       ''CeleryExecutor'' fresh_process
     = (Inl (AirflowConfigException (config_error_message ''CeleryExecutor'')),
        \<lparr>ext = 100,
         trace = [ImportString ''airflow.executors.celery_executor.CeleryExecutor'',
                  LogError (ImportError ''No module named celery'')],
         default_executor = PyNone\<rparr>)"
  by (simp add: sample_defs run_defs no_celery_modules_def)

text \<open>
  The same for every installation: whichever of the three loads of the composite
  builder fails (the celery executor, the kubernetes executor after the celery executor
  was built, the composite type after both were built), load_executor on the composite
  identifier raises the exception of that load as it is, from the state that load left.
\<close>

lemma load_executor_composite_failure_unchanged:
  assumes "import_registry_entry env (CELERY_EXECUTOR (constants env)) s = (Inl e, s')
     \<or> (\<exists>c1 s1 i1 s2.
           import_registry_entry env (CELERY_EXECUTOR (constants env)) s = (Inr c1, s1)
         \<and> do_call env c1 [] s1 = (Inr i1, s2)
         \<and> import_registry_entry env (KUBERNETES_EXECUTOR (constants env)) s2 = (Inl e, s'))
     \<or> (\<exists>c1 s1 i1 s2 c2 s3 i2 s4.
           import_registry_entry env (CELERY_EXECUTOR (constants env)) s = (Inr c1, s1)
         \<and> do_call env c1 [] s1 = (Inr i1, s2)
         \<and> import_registry_entry env (KUBERNETES_EXECUTOR (constants env)) s2 = (Inr c2, s3)
         \<and> do_call env c2 [] s3 = (Inr i2, s4)
         \<and> import_registry_entry env (CELERY_KUBERNETES_EXECUTOR (constants env)) s4
             = (Inl e, s'))"
  shows "load_executor env (CELERY_KUBERNETES_EXECUTOR (constants env)) s = (Inl e, s')"
  using assms
  by (auto simp: load_executor_def load_celery_kubernetes_executor_def)

subsection \<open>Registry names\<close>

text \<open>
  C6, as stated, fails at one registry key, the composite identifier: load_executor does
  not call the type loaded from its entry with zero arguments, it calls it with the two
  sub-executors. In the sample installation the composite type is \<open>Obj 4\<close>.
\<close>

theorem load_executor_registry_key_called_with_arguments:
  "dict_contains (executors (constants (sample_env core_modules ''CeleryKubernetesExecutor'')))
     ''CeleryKubernetesExecutor''
   \<and> fst (import_executor_cls (sample_env core_modules ''CeleryKubernetesExecutor'')
            ''CeleryKubernetesExecutor'' fresh_process) = Inr (Obj 4, CORE)
   \<and> trace (snd (load_executor (sample_env core_modules ''CeleryKubernetesExecutor'')
                   ''CeleryKubernetesExecutor'' fresh_process))
       = [ImportString ''airflow.executors.celery_executor.CeleryExecutor'',
          Call (Obj 3) [],
          ImportString ''airflow.executors.kubernetes_executor.KubernetesExecutor'',
          Call (Obj 6) [],
          ImportString ''airflow.executors.celery_kubernetes_executor.CeleryKubernetesExecutor'',
          Call (Obj 4) [Obj 100, Obj 101]]"
  by (simp add: sample_defs run_defs)

text \<open>
  C6, amended: for every key of the registry, import_executor_cls loads the location the
  registry gives for the key and returns the loaded type tagged \<open>CORE\<close> (a failure of
  that load reaches the caller as it is); and for every key other than the composite
  identifier, load_executor calls the type so loaded with zero arguments and returns
  what the call returns.
\<close>

theorem registry_key_core_and_no_arguments:
  assumes "executors (constants env) executor_name = Some location"
  shows "import_executor_cls env executor_name s =
           (case do_import_string env location s of
              (Inl e, s1) \<Rightarrow> (Inl e, s1)
            | (Inr c, s1) \<Rightarrow> (Inr (c, CORE), s1))
         \<and> (executor_name \<noteq> CELERY_KUBERNETES_EXECUTOR (constants env) \<longrightarrow>
              (\<forall>c s1. do_import_string env location s = (Inr c, s1) \<longrightarrow>
                 load_executor env executor_name s =
                   do_call env c []
                     (emit (LogInfo ''Loaded executor: %s'' [executor_name])
                       (emit (LogDebug ''Loading executor %s from %s'' [executor_name, ''core''])
                          s1))))"
  using assms
  by (simp add: import_executor_cls_def load_executor_def dict_contains_def dict_getitem_def)

theorem registry_key_core_and_no_arguments_witness:
  "import_executor_cls (sample_env core_modules ''LocalExecutor'') ''LocalExecutor''
     fresh_process =
     (Inr (Obj 1, CORE),
      \<lparr>ext = 100,
       trace = [ImportString ''airflow.executors.local_executor.LocalExecutor''],
       default_executor = PyNone\<rparr>)
   \<and> load_executor (sample_env core_modules ''LocalExecutor'') ''LocalExecutor''
       fresh_process =
     (Inr (Obj 100),
      \<lparr>ext = 101,
       trace = [ImportString ''airflow.executors.local_executor.LocalExecutor'',
                LogDebug ''Loading executor %s from %s'' [''LocalExecutor'', ''core''],
                LogInfo ''Loaded executor: %s'' [''LocalExecutor''],
                Call (Obj 1) []],
       default_executor = PyNone\<rparr>)"
proof -
  let ?env = "sample_env core_modules ''LocalExecutor''"
  let ?s1 = "\<lparr>ext = 100,
       trace = [ImportString ''airflow.executors.local_executor.LocalExecutor''],
       default_executor = PyNone\<rparr> :: nat loader_state"
  have a: "executors (constants ?env) ''LocalExecutor''
             = Some ''airflow.executors.local_executor.LocalExecutor''"
    by (simp add: sample_defs)
  have b: "''LocalExecutor'' \<noteq> CELERY_KUBERNETES_EXECUTOR (constants ?env)"
    by (simp add: sample_defs)
  have c: "do_import_string ?env ''airflow.executors.local_executor.LocalExecutor''
             fresh_process = (Inr (Obj 1), ?s1)"
    by (simp add: sample_defs run_defs)
  show ?thesis
    using registry_key_core_and_no_arguments [OF a, of fresh_process] b c
    by (simp add: sample_defs run_defs)
qed

text \<open>
  C9: the composite identifier is a key of the registry, so import_executor_cls on it
  takes the registry branch: it loads the location of that entry and returns the loaded
  type tagged \<open>CORE\<close>. The one event it adds to the trace is that load; it calls no class,
  so it builds nothing.
\<close>

theorem import_executor_cls_composite_name_is_core:
  "\<exists>location.
     executors (constants env) (CELERY_KUBERNETES_EXECUTOR (constants env)) = Some location
   \<and> import_executor_cls env (CELERY_KUBERNETES_EXECUTOR (constants env)) s =
       (case do_import_string env location s of
          (Inl e, s1) \<Rightarrow> (Inl e, s1)
        | (Inr c, s1) \<Rightarrow> (Inr (c, CORE), s1))
   \<and> trace (snd (import_executor_cls env (CELERY_KUBERNETES_EXECUTOR (constants env)) s)) =
       trace s @ [ImportString location]"
proof -
  obtain location where loc:
    "executors (constants env) (CELERY_KUBERNETES_EXECUTOR (constants env)) = Some location"
    using executors_keys(4) by blast
  have eq: "import_executor_cls env (CELERY_KUBERNETES_EXECUTOR (constants env)) s =
       (case do_import_string env location s of
          (Inl e, s1) \<Rightarrow> (Inl e, s1)
        | (Inr c, s1) \<Rightarrow> (Inr (c, CORE), s1))"
    by (simp add: import_executor_cls_def dict_contains_def dict_getitem_def loc)
  have "trace (snd (import_executor_cls env (CELERY_KUBERNETES_EXECUTOR (constants env)) s)) =
       trace s @ [ImportString location]"
    unfolding eq by (auto split: prod.splits sum.splits dest: do_import_string_state)
  with loc eq show ?thesis by blast
qed

theorem import_executor_cls_composite_name_is_core_witness:
  "import_executor_cls (sample_env core_modules ''CeleryKubernetesExecutor'')
     ''CeleryKubernetesExecutor'' fresh_process =
   (Inr (Obj 4, CORE),
    \<lparr>ext = 100,
     trace = [ImportString
                ''airflow.executors.celery_kubernetes_executor.CeleryKubernetesExecutor''],
     default_executor = PyNone\<rparr>)"
proof -
  let ?env = "sample_env core_modules ''CeleryKubernetesExecutor''"
  have k: "CELERY_KUBERNETES_EXECUTOR (constants ?env) = ''CeleryKubernetesExecutor''"
    by (simp add: sample_defs)
  have l: "executors (constants ?env) ''CeleryKubernetesExecutor'' =
      Some ''airflow.executors.celery_kubernetes_executor.CeleryKubernetesExecutor''"
    by (simp add: sample_defs)
  from import_executor_cls_composite_name_is_core [of ?env fresh_process]
  have "import_executor_cls ?env ''CeleryKubernetesExecutor'' fresh_process =
       (case do_import_string ?env
               ''airflow.executors.celery_kubernetes_executor.CeleryKubernetesExecutor''
               fresh_process of
          (Inl e, s1) \<Rightarrow> (Inl e, s1)
        | (Inr c, s1) \<Rightarrow> (Inr (c, CORE), s1))"
    unfolding k l by auto
  then show ?thesis
    by (simp add: sample_defs run_defs)
qed

subsection \<open>Custom paths and the plugin collaborator\<close>

text \<open>
  C7: for every name that is not a registry key and contains more than one dot, if the
  load of the name as a literal dotted location succeeds, import_executor_cls returns
  exactly the loaded type, tagged \<open>CUSTOM_PATH\<close>; that load is the only event it adds to
  the trace, so the plugin strategy is not attempted.
\<close>

theorem import_executor_cls_custom_path:
  assumes "\<not> dict_contains (executors (constants env)) executor_name"
    and "count_list executor_name (CHR ''.'') > 1"
    and "do_import_string env executor_name s = (Inr c, s')"
  shows "import_executor_cls env executor_name s = (Inr (c, CUSTOM_PATH), s')
         \<and> trace s' = trace s @ [ImportString executor_name]"
  using assms
  by (auto simp: import_executor_cls_def import_custom_path_def dest: do_import_string_state)

theorem import_executor_cls_custom_path_witness:
  "import_executor_cls (sample_env custom_modules ''my_company.executors.fast.FastExecutor'')
     ''my_company.executors.fast.FastExecutor'' fresh_process =
   (Inr (Obj 51, CUSTOM_PATH),
    \<lparr>ext = 100,
     trace = [ImportString ''my_company.executors.fast.FastExecutor''],
     default_executor = PyNone\<rparr>)"
proof -
  let ?env = "sample_env custom_modules ''my_company.executors.fast.FastExecutor''"
  have a: "\<not> dict_contains (executors (constants ?env))
               ''my_company.executors.fast.FastExecutor''"
    by (simp add: sample_defs custom_modules_def)
  have b: "count_list ''my_company.executors.fast.FastExecutor'' (CHR ''.'') > 1"
    by simp
  have c: "do_import_string ?env ''my_company.executors.fast.FastExecutor'' fresh_process =
     (Inr (Obj 51),
      \<lparr>ext = 100,
       trace = [ImportString ''my_company.executors.fast.FastExecutor''],
       default_executor = PyNone\<rparr>)"
    by (simp add: sample_defs run_defs custom_modules_def)
  show ?thesis
    using import_executor_cls_custom_path [OF a b c] by simp
qed

text \<open>
  C8: for every name that is the composite identifier, or a registry key, or does not
  contain exactly one dot, neither import_executor_cls nor load_executor calls
  \<^verbatim>\<open>integrate_executor_plugins\<close>: the events each of them adds to the trace hold no such
  call, whatever the outcome.
\<close>

theorem no_plugin_call_off_the_plugin_strategy:
  assumes "executor_name = CELERY_KUBERNETES_EXECUTOR (constants env)
           \<or> dict_contains (executors (constants env)) executor_name
           \<or> count_list executor_name (CHR ''.'') \<noteq> 1"
  shows "(\<exists>evs. trace (snd (import_executor_cls env executor_name s)) = trace s @ evs
                \<and> IntegrateExecutorPlugins \<notin> set evs)
         \<and> (\<exists>evs. trace (snd (load_executor env executor_name s)) = trace s @ evs
                \<and> IntegrateExecutorPlugins \<notin> set evs)"
proof -
  let ?k = "constants env"
  have key: "dict_contains (executors ?k) executor_name
             \<or> count_list executor_name (CHR ''.'') \<noteq> 1"
    using assms executors_keys(4) [of ?k] by (auto simp: dict_contains_def)
  obtain r s1 where run: "import_executor_cls env executor_name s = (r, s1)"
    by (cases "import_executor_cls env executor_name s")
  have imp: "trace s1 = trace s @ [ImportString (case executors ?k executor_name of
                                       Some location \<Rightarrow> location | None \<Rightarrow> executor_name)]"
    using key run
    by (auto simp: import_executor_cls_def dict_contains_def dict_getitem_def
        split: if_splits prod.splits sum.splits
        dest!: do_import_string_state import_custom_path_state)
  have first: "\<exists>evs. trace (snd (import_executor_cls env executor_name s)) = trace s @ evs
                \<and> IntegrateExecutorPlugins \<notin> set evs"
    using imp run by simp
  have second: "\<exists>evs. trace (snd (load_executor env executor_name s)) = trace s @ evs
                \<and> IntegrateExecutorPlugins \<notin> set evs"
  proof (cases "executor_name = CELERY_KUBERNETES_EXECUTOR ?k")
    case True
    obtain r' s' where "load_celery_kubernetes_executor env s = (r', s')"
      by (cases "load_celery_kubernetes_executor env s")
    from load_celery_kubernetes_executor_state [OF this] this True show ?thesis
      by (auto simp: load_executor_def)
  next
    case False
    obtain r' s' where le: "load_executor env executor_name s = (r', s')"
      by (cases "load_executor env executor_name s")
    have "\<exists>evs. trace s' = trace s @ evs \<and> IntegrateExecutorPlugins \<notin> set evs"
      using le False run imp
      by (auto simp: load_executor_def split: prod.splits sum.splits exn.splits
          dest!: do_call_state)
    with le show ?thesis by simp
  qed
  from first second show ?thesis by blast
qed

theorem no_plugin_call_off_the_plugin_strategy_witness:
  "dict_contains (executors (constants (sample_env core_modules ''LocalExecutor'')))
     ''SequentialExecutor''
   \<and> (\<exists>evs. trace (snd (import_executor_cls (sample_env core_modules ''LocalExecutor'')
                       ''SequentialExecutor'' fresh_process)) = trace fresh_process @ evs
          \<and> IntegrateExecutorPlugins \<notin> set evs)
   \<and> (\<exists>evs. trace (snd (load_executor (sample_env core_modules ''LocalExecutor'')
                       ''SequentialExecutor'' fresh_process)) = trace fresh_process @ evs
          \<and> IntegrateExecutorPlugins \<notin> set evs)
   \<and> trace (snd (load_executor (sample_env core_modules ''LocalExecutor'')
                       ''SequentialExecutor'' fresh_process)) =
       [ImportString ''airflow.executors.sequential_executor.SequentialExecutor'',
        LogDebug ''Loading executor %s from %s'' [''SequentialExecutor'', ''core''],
        LogInfo ''Loaded executor: %s'' [''SequentialExecutor''],
        Call (Obj 2) []]"
proof -
  let ?env = "sample_env core_modules ''LocalExecutor''"
  have a: "dict_contains (executors (constants ?env)) ''SequentialExecutor''"
    by (simp add: sample_defs)
  then have "''SequentialExecutor'' = CELERY_KUBERNETES_EXECUTOR (constants ?env)
           \<or> dict_contains (executors (constants ?env)) ''SequentialExecutor''
           \<or> count_list ''SequentialExecutor'' (CHR ''.'') \<noteq> 1"
    by blast
  from no_plugin_call_off_the_plugin_strategy [OF this, of fresh_process]
  have b: "(\<exists>evs. trace (snd (import_executor_cls ?env ''SequentialExecutor'' fresh_process))
                  = trace fresh_process @ evs \<and> IntegrateExecutorPlugins \<notin> set evs)
         \<and> (\<exists>evs. trace (snd (load_executor ?env ''SequentialExecutor'' fresh_process))
                  = trace fresh_process @ evs \<and> IntegrateExecutorPlugins \<notin> set evs)" .
  have c: "trace (snd (load_executor ?env ''SequentialExecutor'' fresh_process)) =
       [ImportString ''airflow.executors.sequential_executor.SequentialExecutor'',
        LogDebug ''Loading executor %s from %s'' [''SequentialExecutor'', ''core''],
        LogInfo ''Loaded executor: %s'' [''SequentialExecutor''],
        Call (Obj 2) []]"
    by (simp add: sample_defs run_defs)
  from a b c show ?thesis by blast
qed

subsection \<open>A failed first call\<close>

text \<open>
  C10: when get_default_executor raises, the cache is still unset afterwards. The next
  call therefore queries \<^verbatim>\<open>conf.get('core', 'EXECUTOR')\<close> again and runs load_executor on
  the answer, storing what that returns; across the two calls the
  configuration has been queried twice.
\<close>

theorem get_default_executor_failure_leaves_cache_unset:
  assumes "get_default_executor env s = (Inl e, s1)"
  shows "default_executor s1 = PyNone
         \<and> (\<exists>r s2. do_conf_get env ''core'' ''EXECUTOR'' s1 = (r, s2)
              \<and> get_default_executor env s1 =
                  (case r of
                     Inl e' \<Rightarrow> (Inl e', s2)
                   | Inr executor_name \<Rightarrow>
                       (case load_executor env executor_name s2 of
                          (Inl e', s3) \<Rightarrow> (Inl e', s3)
                        | (Inr executor, s3) \<Rightarrow>
                            (Inr executor, s3\<lparr>default_executor := executor\<rparr>))))
         \<and> (\<exists>evs1 evs2.
               trace (snd (get_default_executor env s1)) =
                 trace s @ ConfGet ''core'' ''EXECUTOR'' # evs1
                         @ ConfGet ''core'' ''EXECUTOR'' # evs2
             \<and> (\<forall>ev\<in>set (evs1 @ evs2). \<not> is_conf_get ev))"
proof -
  have cache: "default_executor s = PyNone"
    using assms by (auto simp: get_default_executor_def split: if_splits)
  have first: "default_executor s1 = PyNone
      \<and> (\<exists>evs1. trace s1 = trace s @ ConfGet ''core'' ''EXECUTOR'' # evs1
                \<and> (\<forall>ev\<in>set evs1. \<not> is_conf_get ev))"
    using assms cache
    by (auto simp: get_default_executor_def split: prod.splits sum.splits
        dest!: do_conf_get_state load_executor_state)
  then obtain evs1 where evs1: "trace s1 = trace s @ ConfGet ''core'' ''EXECUTOR'' # evs1"
    "\<forall>ev\<in>set evs1. \<not> is_conf_get ev" by blast
  obtain r s2 where conf: "do_conf_get env ''core'' ''EXECUTOR'' s1 = (r, s2)"
    by (cases "do_conf_get env ''core'' ''EXECUTOR'' s1")
  have again: "get_default_executor env s1 =
                  (case r of
                     Inl e' \<Rightarrow> (Inl e', s2)
                   | Inr executor_name \<Rightarrow>
                       (case load_executor env executor_name s2 of
                          (Inl e', s3) \<Rightarrow> (Inl e', s3)
                        | (Inr executor, s3) \<Rightarrow>
                            (Inr executor, s3\<lparr>default_executor := executor\<rparr>)))"
    using first conf by (simp add: get_default_executor_def split: sum.splits)
  obtain r' s' where second: "get_default_executor env s1 = (r', s')"
    by (cases "get_default_executor env s1")
  have "\<exists>evs2. trace s' = trace s1 @ ConfGet ''core'' ''EXECUTOR'' # evs2
                \<and> (\<forall>ev\<in>set evs2. \<not> is_conf_get ev)"
    using second first
    by (auto simp: get_default_executor_def split: prod.splits sum.splits
        dest!: do_conf_get_state load_executor_state)
  then obtain evs2 where evs2: "trace s' = trace s1 @ ConfGet ''core'' ''EXECUTOR'' # evs2"
    "\<forall>ev\<in>set evs2. \<not> is_conf_get ev" by blast
  have "trace (snd (get_default_executor env s1)) =
                 trace s @ ConfGet ''core'' ''EXECUTOR'' # evs1
                         @ ConfGet ''core'' ''EXECUTOR'' # evs2
             \<and> (\<forall>ev\<in>set (evs1 @ evs2). \<not> is_conf_get ev)"
    using evs1 evs2 second by auto
  with first conf again show ?thesis by blast
qed

theorem get_default_executor_failure_leaves_cache_unset_witness:
  "get_default_executor (sample_env core_modules ''no_such.Executor'') fresh_process =
     (Inl (AirflowConfigException (config_error_message ''no_such.Executor'')),
      \<lparr>ext = 100,
       trace = [ConfGet ''core'' ''EXECUTOR'',
                LogDebug plugin_debug_message [''no_such.Executor''],
                IntegrateExecutorPlugins,
                ImportString ''airflow.executors.no_such.Executor'',
                ImportString ''no_such.Executor'',
                LogError (ImportError ''No module named no_such.Executor'')],
       default_executor = PyNone\<rparr>)
   \<and> trace (snd (get_default_executor (sample_env core_modules ''no_such.Executor'')
       \<lparr>ext = 100,
        trace = [ConfGet ''core'' ''EXECUTOR'',
                LogDebug plugin_debug_message [''no_such.Executor''],
                IntegrateExecutorPlugins,
                ImportString ''airflow.executors.no_such.Executor'',
                ImportString ''no_such.Executor'',
                LogError (ImportError ''No module named no_such.Executor'')],
        default_executor = PyNone\<rparr>)) =
       [ConfGet ''core'' ''EXECUTOR'',
        LogDebug plugin_debug_message [''no_such.Executor''],
        IntegrateExecutorPlugins,
        ImportString ''airflow.executors.no_such.Executor'',
        ImportString ''no_such.Executor'',
        LogError (ImportError ''No module named no_such.Executor''),
        ConfGet ''core'' ''EXECUTOR'',
        LogDebug plugin_debug_message [''no_such.Executor''],
        IntegrateExecutorPlugins,
        ImportString ''airflow.executors.no_such.Executor'',
        ImportString ''no_such.Executor'',
        LogError (ImportError ''No module named no_such.Executor'')]"
proof -
  let ?env = "sample_env core_modules ''no_such.Executor''"
  let ?s1 = "\<lparr>ext = 100,
       trace = [ConfGet ''core'' ''EXECUTOR'',
                LogDebug plugin_debug_message [''no_such.Executor''],
                IntegrateExecutorPlugins,
                ImportString ''airflow.executors.no_such.Executor'',
                ImportString ''no_such.Executor'',
                LogError (ImportError ''No module named no_such.Executor'')],
       default_executor = PyNone\<rparr> :: nat loader_state"
  have a: "get_default_executor ?env fresh_process =
     (Inl (AirflowConfigException (config_error_message ''no_such.Executor'')), ?s1)"
    by (simp add: sample_defs run_defs)
  have "default_executor ?s1 = PyNone"
    using get_default_executor_failure_leaves_cache_unset [OF a] by blast
  then show ?thesis
    using a by (simp add: sample_defs run_defs)
qed

end
